theory Spec2Isabelle
  imports Main
begin

section \<open>Message taxonomy\<close>

text \<open>
  The source is \<^verbatim>\<open>packages/angular_devkit/core/src/experimental/jobs/create-job-handler.ts\<close>.
  Payloads (\<^verbatim>\<open>JsonValue\<close>), the job description, logger entries and error values are
  never inspected by the handler; they are carried around as values of one opaque tree
  type. Numbers are kept as integers: no function of the file computes with them.
\<close>

datatype json =
    JNull
  | JBool bool
  | JNumber int
  | JString string
  | JArray "json list"
  | JObject "(string \<times> json) list"

type_synonym JobDescription = json

text \<open>
  Modelled from the spec: the message types \<^verbatim>\<open>JobInboundMessage\<close> and
  \<^verbatim>\<open>JobOutboundMessage\<close> and their kinds are declared in \<^verbatim>\<open>./api\<close>, which is not among
  the source files. The constructors are the kinds that the source file reads (lines 78,
  82, 94) and builds (lines 79, 88, 104, 111, 127, 131, 136, 152), with the fields it
  gives them; they are the message taxonomy of section 3 of the specification.
\<close>

datatype JobInboundMessage =
    Ping int
  | Stop
  | Input json

datatype JobOutboundMessage =
    Start JobDescription
  | Pong JobDescription int
  | Log JobDescription json
  | Output JobDescription json
  | ChannelMessage JobDescription string json
  | ChannelError JobDescription string json
  | ChannelComplete JobDescription string
  | End JobDescription

datatype JobOutboundMessageKind =
  KStart | KPong | KLog | KOutput | KChannelMessage | KChannelError | KChannelComplete | KEnd

fun kind :: "JobOutboundMessage \<Rightarrow> JobOutboundMessageKind" where
  "kind (Start d) = KStart"
| "kind (Pong d i) = KPong"
| "kind (Log d e) = KLog"
| "kind (Output d v) = KOutput"
| "kind (ChannelMessage d n m) = KChannelMessage"
| "kind (ChannelError d n e) = KChannelError"
| "kind (ChannelComplete d n) = KChannelComplete"
| "kind (End d) = KEnd"

datatype exception = ChannelAlreadyExistException string

section \<open>The state of one run\<close>

text \<open>
  One run is one subscription to the observable that the handler returns. Its state is
  what the closures of \<^verbatim>\<open>createJobHandler\<close> share:
  \<^item> \<open>emitted\<close> and \<open>outcome\<close>: the subscriber called \<^verbatim>\<open>subject\<close> in the source. What
    it has passed downstream so far, and how it ended. An RxJS subscriber is stopped
    (\<^verbatim>\<open>isStopped\<close>) once \<^verbatim>\<open>complete\<close> or \<^verbatim>\<open>error\<close> was called; from then on
    \<^verbatim>\<open>next\<close>, \<^verbatim>\<open>error\<close> and \<^verbatim>\<open>complete\<close> do nothing.
  \<^item> \<open>channels\<close>: the \<^verbatim>\<open>Map<string, Subject>\<close> of line 113, in insertion order. A
    subject is named by its handle, its index in \<open>subjects\<close>.
  \<^item> \<open>subjects\<close>: every channel subject created so far, with its name and whether it
    is stopped. The job body keeps the handles; a stopped subject ignores \<^verbatim>\<open>next\<close>, and
    its single observer ignores a second \<^verbatim>\<open>error\<close> or \<^verbatim>\<open>complete\<close>.
  \<^item> \<open>execution\<close>: the variable \<^verbatim>\<open>subscription\<close> of line 72 together with the promise
    of line 150.
  \<^item> \<open>inputChannel\<close>: the values pushed into the subject of line 71.

  The subscription that the subscribe function returns (line 166) is released when the
  outbound stream ends; by then the stream of the body has ended or \<open>Stop\<close> has released
  it, so this changes nothing and is left out. The consumer of the outbound stream is
  taken to stay subscribed.
\<close>

datatype terminal = Completed | Failed json

datatype execution =
    Unset
  | PromisePending
  | PromiseSettled
  | StreamOpen
  | StreamClosed

record run_state =
  emitted :: "JobOutboundMessage list"
  outcome :: "terminal option"
  channels :: "(string \<times> nat) list"
  subjects :: "(string \<times> bool) list"
  execution :: execution
  inputChannel :: "json list"

definition initial :: run_state where
  "initial = \<lparr>emitted = [], outcome = None, channels = [], subjects = [],
     execution = Unset, inputChannel = []\<rparr>"

subsection \<open>The outbound subscriber\<close>

definition subject_next :: "JobOutboundMessage \<Rightarrow> run_state \<Rightarrow> run_state" where
  "subject_next m s = (if outcome s = None then s\<lparr>emitted := emitted s @ [m]\<rparr> else s)"

definition subject_complete :: "run_state \<Rightarrow> run_state" where
  "subject_complete s = (if outcome s = None then s\<lparr>outcome := Some Completed\<rparr> else s)"

definition subject_error :: "json \<Rightarrow> run_state \<Rightarrow> run_state" where
  "subject_error e s = (if outcome s = None then s\<lparr>outcome := Some (Failed e)\<rparr> else s)"

subsection \<open>Channels (lines 119 to 145)\<close>

definition has_channel :: "string \<Rightarrow> run_state \<Rightarrow> bool" where
  "has_channel name s = (map_of (channels s) name \<noteq> None)"

definition delete_channel :: "string \<Rightarrow> run_state \<Rightarrow> run_state" where
  "delete_channel name s = s\<lparr>channels := filter (\<lambda>c. fst c \<noteq> name) (channels s)\<rparr>"

definition live :: "nat \<Rightarrow> run_state \<Rightarrow> bool" where
  "live h s = (h < length (subjects s) \<and> \<not> snd (subjects s ! h))"

definition stop_subject :: "nat \<Rightarrow> run_state \<Rightarrow> run_state" where
  "stop_subject h s = s\<lparr>subjects := (subjects s)[h := (fst (subjects s ! h), True)]\<rparr>"

text \<open>
  \<^verbatim>\<open>createChannel(name)\<close>: throws when the name is in the map, otherwise makes a new
  subject, registers it under the name and returns it. The exception goes to the caller
  (the job body); the state is as before the call.
\<close>

definition createChannel :: "string \<Rightarrow> run_state \<Rightarrow> exception + (nat \<times> run_state)" where
  "createChannel name s =
     (if has_channel name s then Inl (ChannelAlreadyExistException name)
      else Inr (length (subjects s),
                s\<lparr>subjects := subjects s @ [(name, False)],
                  channels := channels s @ [(name, length (subjects s))]\<rparr>))"

text \<open>
  The three callbacks the subject of a channel is subscribed with (lines 125 to 139). They
  run only while the subject is not stopped (\<open>live\<close>); \<^verbatim>\<open>error\<close> and \<^verbatim>\<open>complete\<close> stop
  it. A handle that was never returned by \<open>createChannel\<close> is not \<open>live\<close>.
\<close>

definition channel_next :: "JobDescription \<Rightarrow> nat \<Rightarrow> json \<Rightarrow> run_state \<Rightarrow> run_state" where
  "channel_next d h m s =
     (if live h s then subject_next (ChannelMessage d (fst (subjects s ! h)) m) s else s)"

definition channel_error :: "JobDescription \<Rightarrow> nat \<Rightarrow> json \<Rightarrow> run_state \<Rightarrow> run_state" where
  "channel_error d h e s =
     (if live h s
      then delete_channel (fst (subjects s ! h))
             (subject_next (ChannelError d (fst (subjects s ! h)) e) (stop_subject h s))
      else s)"

definition channel_complete :: "JobDescription \<Rightarrow> nat \<Rightarrow> run_state \<Rightarrow> run_state" where
  "channel_complete d h s =
     (if live h s
      then delete_channel (fst (subjects s ! h))
             (subject_next (ChannelComplete d (fst (subjects s ! h))) (stop_subject h s))
      else s)"

subsection \<open>What the job body does with its context\<close>

text \<open>
  The body \<^verbatim>\<open>fn\<close> is code of the caller. What the handler sees of it is the calls it
  makes on the context it was given, and what it returns. A call is one of:
  a logger entry, a \<^verbatim>\<open>createChannel\<close>, or \<^verbatim>\<open>next\<close>, \<^verbatim>\<open>error\<close>, \<^verbatim>\<open>complete\<close> on a
  channel handle. A \<open>CreateChannel\<close> call that throws is caught by the body here; a
  body that lets an exception escape is the result \<open>Throws\<close>.

  Modelled from the spec: the class \<^verbatim>\<open>Logger\<close> (\<^verbatim>\<open>../../logger\<close>) is not among the source
  files. An entry that the body logs is passed at once to the subscriber of line 102,
  which forwards it as a \<open>Log\<close> message (specification, section 4.4: a logger sink whose
  entries are forwarded as \<open>Log\<close> messages).
\<close>

datatype call =
    LoggerEntry json
  | CreateChannel string
  | ChannelNext nat json
  | ChannelFail nat json
  | ChannelDone nat

definition do_call :: "JobDescription \<Rightarrow> call \<Rightarrow> run_state \<Rightarrow> run_state" where
  "do_call d c s =
     (case c of
        LoggerEntry entry \<Rightarrow> subject_next (Log d entry) s
      | CreateChannel name \<Rightarrow>
          (case createChannel name s of Inl x \<Rightarrow> s | Inr (h, s') \<Rightarrow> s')
      | ChannelNext h m \<Rightarrow> channel_next d h m s
      | ChannelFail h e \<Rightarrow> channel_error d h e s
      | ChannelDone h \<Rightarrow> channel_complete d h s)"

text \<open>
  Modelled from the spec: \<^verbatim>\<open>isPromise\<close> (\<^verbatim>\<open>../../utils\<close>) is not among the source files.
  What the body returns is one of the three shapes of section 3 of the specification,
  told apart at lines 150 and 156: a promise, an observable, or else a scalar.
\<close>

datatype returned =
    Scalar json
  | PromiseResult
  | ObservableResult
  | Throws json

record body =
  calls :: "call list"
  returns :: returned

subsection \<open>Subscribing (lines 74 to 173)\<close>

text \<open>
  The inbound bus is taken to be hot: it delivers nothing during the call of
  \<^verbatim>\<open>inboundBus.subscribe\<close> itself, so every inbound message is an event after the
  synchronous part. An exception that escapes the subscribe function is turned into
  \<^verbatim>\<open>subject.error\<close> by RxJS 6 (\<^verbatim>\<open>Observable._trySubscribe\<close>). What a promise or a
  stream does is given by the events that follow; a stream that emits already while it
  is subscribed to (line 157) is the stream whose first events are those emissions, since
  nothing else can happen in between.
\<close>

definition finish :: "JobDescription \<Rightarrow> returned \<Rightarrow> run_state \<Rightarrow> run_state" where
  "finish d r s =
     (case r of
        PromiseResult \<Rightarrow> s\<lparr>execution := PromisePending\<rparr>
      | ObservableResult \<Rightarrow> s\<lparr>execution := StreamOpen\<rparr>
      | Scalar v \<Rightarrow> subject_complete (subject_next (End d) (subject_next (Output d v) s))
      | Throws e \<Rightarrow> subject_error e s)"

definition subscribe :: "JobDescription \<Rightarrow> body \<Rightarrow> run_state" where
  "subscribe d b =
     finish d (returns b) (fold (do_call d) (calls b) (subject_next (Start d) initial))"

subsection \<open>Events after the synchronous part\<close>

datatype event =
    Inbound JobInboundMessage
  | Call call
  | Resolve json
  | Reject json
  | StreamNext json
  | StreamError json
  | StreamComplete

definition unsubscribe :: "run_state \<Rightarrow> run_state" where
  "unsubscribe s = (if execution s = StreamOpen then s\<lparr>execution := StreamClosed\<rparr> else s)"

definition close_all_channels :: "JobDescription \<Rightarrow> run_state \<Rightarrow> run_state" where
  "close_all_channels d s = fold (\<lambda>c. channel_complete d (snd c)) (channels s) s"

definition on_inbound :: "JobDescription \<Rightarrow> JobInboundMessage \<Rightarrow> run_state \<Rightarrow> run_state" where
  "on_inbound d m s =
     (case m of
        Ping i \<Rightarrow> subject_next (Pong d i) s
      | Stop \<Rightarrow>
          close_all_channels d (subject_complete (subject_next (End d) (unsubscribe s)))
      | Input v \<Rightarrow> s\<lparr>inputChannel := inputChannel s @ [v]\<rparr>)"

definition step :: "JobDescription \<Rightarrow> event \<Rightarrow> run_state \<Rightarrow> run_state" where
  "step d ev s =
     (case ev of
        Inbound m \<Rightarrow> on_inbound d m s
      | Call c \<Rightarrow> do_call d c s
      | Resolve v \<Rightarrow>
          (if execution s = PromisePending
           then subject_complete (subject_next (End d) (subject_next (Output d v)
                  (s\<lparr>execution := PromiseSettled\<rparr>)))
           else s)
      | Reject e \<Rightarrow>
          (if execution s = PromisePending
           then subject_error e (s\<lparr>execution := PromiseSettled\<rparr>)
           else s)
      | StreamNext v \<Rightarrow>
          (if execution s = StreamOpen then subject_next (Output d v) s else s)
      | StreamError e \<Rightarrow>
          (if execution s = StreamOpen
           then subject_error e (s\<lparr>execution := StreamClosed\<rparr>)
           else s)
      | StreamComplete \<Rightarrow>
          (if execution s = StreamOpen
           then subject_complete (subject_next (End d) (s\<lparr>execution := StreamClosed\<rparr>))
           else s))"

definition run :: "JobDescription \<Rightarrow> body \<Rightarrow> event list \<Rightarrow> run_state" where
  "run d b evs = fold (step d) evs (subscribe d b)"

section \<open>Handlers\<close>

text \<open>
  An observable is modelled by what a subscriber is sent, given the events that follow
  the subscription. The context carries the description; the deliveries of its
  \<^verbatim>\<open>inboundBus\<close> are the \<open>Inbound\<close> events. A handler is a function object: it can be
  called, and it has own enumerable properties (here a map from property names to
  values), which is what \<^verbatim>\<open>Object.assign\<close> reads and writes.
\<close>

datatype 'a notification = Next 'a | Error json | Complete

record JobHandlerContext =
  description :: JobDescription

record JobHandler =
  invoke :: "json \<Rightarrow> JobHandlerContext \<Rightarrow> event list \<Rightarrow> JobOutboundMessage notification list"
  props :: "string \<rightharpoonup> json"

definition object_assign :: "(string \<rightharpoonup> json) \<Rightarrow> (string \<rightharpoonup> json) \<Rightarrow> (string \<rightharpoonup> json)" where
  "object_assign target source = target ++ source"

definition notifications :: "run_state \<Rightarrow> JobOutboundMessage notification list" where
  "notifications s =
     map Next (emitted s) @
     (case outcome s of
        None \<Rightarrow> []
      | Some Completed \<Rightarrow> [Complete]
      | Some (Failed e) \<Rightarrow> [Error e])"

text \<open>
  \<^verbatim>\<open>createJobHandler(fn, options = {})\<close>: \<open>None\<close> is the omitted argument. The function
  \<open>fn\<close> gives, for an argument and a context, what the body does while it is called.
\<close>

definition createJobHandler ::
  "(json \<Rightarrow> JobHandlerContext \<Rightarrow> body) \<Rightarrow> json option \<Rightarrow> JobHandler" where
  "createJobHandler fn options =
     \<lparr>invoke = (\<lambda>argument context evs.
                  notifications (run (description context) (fn argument context) evs)),
      props = object_assign Map.empty
                [''jobDescription'' \<mapsto> (case options of None \<Rightarrow> JObject [] | Some opts \<Rightarrow> opts)]\<rparr>"

text \<open>
  \<^verbatim>\<open>createJobFactory(loader, options)\<close>: the promise of the loader resolves to a handler,
  rejects, or never settles. \<^verbatim>\<open>switchMap\<close> passes on what the loaded handler's
  observable sends.
\<close>

datatype loaded = Loaded JobHandler | LoadFailed json | NeverLoaded

definition createJobFactory :: "loaded \<Rightarrow> json \<Rightarrow> JobHandler" where
  "createJobFactory loader options =
     \<lparr>invoke = (\<lambda>argument context evs.
                  case loader of
                    Loaded fn \<Rightarrow> invoke fn argument context evs
                  | LoadFailed e \<Rightarrow> [Error e]
                  | NeverLoaded \<Rightarrow> []),
      props = object_assign Map.empty [''jobDescription'' \<mapsto> options]\<rparr>"

subsection \<open>The logging wrapper (lines 202 to 221)\<close>


text \<open>
  The calls made on the logger. The text of an entry is \<^verbatim>\<open>JSON.stringify\<close> of a message
  or an error after a fixed prefix; the entry is kept here as the value that is printed.
\<close>

datatype logged =
    InfoInput JobInboundMessage
  | InfoMessage JobOutboundMessage
  | WarnError json
  | InfoCompleted


text \<open>
  The RxJS operator \<^verbatim>\<open>tap(next, error, complete)\<close>: for each notification of the source,
  the callback is called and then the notification is passed on; the tap is a subscriber
  itself, so it stops at the first \<open>Error\<close> or \<open>Complete\<close>. The result is the list of
  what the callbacks returned and the list of what was passed on.
\<close>

fun tap :: "('a \<Rightarrow> 'l) \<Rightarrow> (json \<Rightarrow> 'l) \<Rightarrow> 'l \<Rightarrow> 'a notification list \<Rightarrow> 'l list \<times> 'a notification list" where
  "tap f g c [] = ([], [])"
| "tap f g c (Next v # ns) = (f v # fst (tap f g c ns), Next v # snd (tap f g c ns))"
| "tap f g c (Error e # ns) = ([g e], [Error e])"
| "tap f g c (Complete # ns) = ([c], [Complete])"


text \<open>
  \<^verbatim>\<open>createLoggerJob(job, logger)\<close>. The logger is a sink outside the handler; the calls
  made on it are given by \<open>createLoggerJob_logged\<close>: those of the tap on the inbound bus
  and those of the tap on the outbound stream (their interleaving depends on timing).
\<close>

definition createLoggerJob :: "JobHandler \<Rightarrow> JobHandler" where
  "createLoggerJob job =
     \<lparr>invoke = (\<lambda>argument context evs.
                  snd (tap InfoMessage WarnError InfoCompleted (invoke job argument context evs))),
      props = object_assign Map.empty (props job)\<rparr>"


subsection \<open>Properties of a trace and of the channel table\<close>

text \<open>
  \<open>trace_inv\<close>: the first message is \<open>Start\<close> and there is no other; there is one
  \<open>End\<close> when the stream completed, and it is the last message, and none otherwise.
  \<open>chan_inv\<close>: the names in the table are distinct, and each entry is a subject that
  is not stopped and carries that name.
\<close>

definition count_kind :: "JobOutboundMessageKind \<Rightarrow> JobOutboundMessage list \<Rightarrow> nat" where
  "count_kind k ms = length (filter (\<lambda>m. kind m = k) ms)"

definition trace_inv :: "JobDescription \<Rightarrow> run_state \<Rightarrow> bool" where
  "trace_inv d s =
     (emitted s \<noteq> [] \<and> hd (emitted s) = Start d \<and> count_kind KStart (emitted s) = 1 \<and>
      count_kind KEnd (emitted s) = (if outcome s = Some Completed then 1 else 0) \<and>
      (outcome s = Some Completed \<longrightarrow> last (emitted s) = End d))"

definition chan_inv :: "run_state \<Rightarrow> bool" where
  "chan_inv s =
     (distinct (map fst (channels s)) \<and>
      (\<forall>c \<in> set (channels s). snd c < length (subjects s) \<and> subjects s ! snd c = (fst c, False)))"

subsection \<open>Events and messages between \<open>Start\<close> and the end\<close>





definition outputs :: "JobOutboundMessage list \<Rightarrow> JobOutboundMessage list" where
  "outputs ms = filter (\<lambda>m. kind m = KOutput) ms"

section \<open>Facts about one run\<close>

lemma subject_next_fields [simp]:
  "emitted (subject_next m s) = (if outcome s = None then emitted s @ [m] else emitted s)"
  "outcome (subject_next m s) = outcome s"
  "channels (subject_next m s) = channels s"
  "subjects (subject_next m s) = subjects s"
  "execution (subject_next m s) = execution s"
  "inputChannel (subject_next m s) = inputChannel s"
  by (simp_all add: subject_next_def)

lemma subject_complete_fields [simp]:
  "emitted (subject_complete s) = emitted s"
  "outcome (subject_complete s) = (if outcome s = None then Some Completed else outcome s)"
  "channels (subject_complete s) = channels s"
  "subjects (subject_complete s) = subjects s"
  "execution (subject_complete s) = execution s"
  "inputChannel (subject_complete s) = inputChannel s"
  by (simp_all add: subject_complete_def)

lemma subject_error_fields [simp]:
  "emitted (subject_error e s) = emitted s"
  "outcome (subject_error e s) = (if outcome s = None then Some (Failed e) else outcome s)"
  "channels (subject_error e s) = channels s"
  "subjects (subject_error e s) = subjects s"
  "execution (subject_error e s) = execution s"
  "inputChannel (subject_error e s) = inputChannel s"
  by (simp_all add: subject_error_def)

lemma stop_subject_fields [simp]:
  "emitted (stop_subject h s) = emitted s"
  "outcome (stop_subject h s) = outcome s"
  "channels (stop_subject h s) = channels s"
  "subjects (stop_subject h s) = (subjects s)[h := (fst (subjects s ! h), True)]"
  "execution (stop_subject h s) = execution s"
  "inputChannel (stop_subject h s) = inputChannel s"
  by (simp_all add: stop_subject_def)

lemma delete_channel_fields [simp]:
  "emitted (delete_channel n s) = emitted s"
  "outcome (delete_channel n s) = outcome s"
  "channels (delete_channel n s) = filter (\<lambda>c. fst c \<noteq> n) (channels s)"
  "subjects (delete_channel n s) = subjects s"
  "execution (delete_channel n s) = execution s"
  "inputChannel (delete_channel n s) = inputChannel s"
  by (simp_all add: delete_channel_def)

lemma unsubscribe_fields [simp]:
  "emitted (unsubscribe s) = emitted s"
  "outcome (unsubscribe s) = outcome s"
  "channels (unsubscribe s) = channels s"
  "subjects (unsubscribe s) = subjects s"
  "execution (unsubscribe s) = (if execution s = StreamOpen then StreamClosed else execution s)"
  "inputChannel (unsubscribe s) = inputChannel s"
  by (simp_all add: unsubscribe_def)

lemma channel_next_fields [simp]:
  "emitted (channel_next d h m s) =
     (if live h s \<and> outcome s = None then emitted s @ [ChannelMessage d (fst (subjects s ! h)) m]
      else emitted s)"
  "outcome (channel_next d h m s) = outcome s"
  "channels (channel_next d h m s) = channels s"
  "subjects (channel_next d h m s) = subjects s"
  "execution (channel_next d h m s) = execution s"
  "inputChannel (channel_next d h m s) = inputChannel s"
  by (simp_all add: channel_next_def)

lemma channel_complete_fields [simp]:
  "emitted (channel_complete d h s) =
     (if live h s \<and> outcome s = None then emitted s @ [ChannelComplete d (fst (subjects s ! h))]
      else emitted s)"
  "outcome (channel_complete d h s) = outcome s"
  "channels (channel_complete d h s) =
     (if live h s then filter (\<lambda>c. fst c \<noteq> fst (subjects s ! h)) (channels s) else channels s)"
  "subjects (channel_complete d h s) =
     (if live h s then (subjects s)[h := (fst (subjects s ! h), True)] else subjects s)"
  "execution (channel_complete d h s) = execution s"
  "inputChannel (channel_complete d h s) = inputChannel s"
  by (simp_all add: channel_complete_def)

lemma channel_error_fields [simp]:
  "emitted (channel_error d h e s) =
     (if live h s \<and> outcome s = None then emitted s @ [ChannelError d (fst (subjects s ! h)) e]
      else emitted s)"
  "outcome (channel_error d h e s) = outcome s"
  "channels (channel_error d h e s) =
     (if live h s then filter (\<lambda>c. fst c \<noteq> fst (subjects s ! h)) (channels s) else channels s)"
  "subjects (channel_error d h e s) =
     (if live h s then (subjects s)[h := (fst (subjects s ! h), True)] else subjects s)"
  "execution (channel_error d h e s) = execution s"
  "inputChannel (channel_error d h e s) = inputChannel s"
  by (simp_all add: channel_error_def)

lemma close_fold_keeps [simp]:
  "outcome (fold (\<lambda>c. channel_complete d (snd c)) cs s) = outcome s"
  "execution (fold (\<lambda>c. channel_complete d (snd c)) cs s) = execution s"
  "inputChannel (fold (\<lambda>c. channel_complete d (snd c)) cs s) = inputChannel s"
  by (induction cs arbitrary: s) simp_all

lemma close_fold_silent:
  "outcome s \<noteq> None \<Longrightarrow> emitted (fold (\<lambda>c. channel_complete d (snd c)) cs s) = emitted s"
  by (induction cs arbitrary: s) simp_all


lemma count_kind_simps [simp]:
  "count_kind k [] = 0"
  "count_kind k (ms @ ns) = count_kind k ms + count_kind k ns"
  "count_kind k (m # ms) = (if kind m = k then 1 else 0) + count_kind k ms"
  by (simp_all add: count_kind_def)

lemma stop_fields [simp]:
  "emitted (on_inbound d Stop s) = (if outcome s = None then emitted s @ [End d] else emitted s)"
  "outcome (on_inbound d Stop s) = (if outcome s = None then Some Completed else outcome s)"
  "execution (on_inbound d Stop s) = (if execution s = StreamOpen then StreamClosed else execution s)"
  "inputChannel (on_inbound d Stop s) = inputChannel s"
  by (simp_all add: on_inbound_def close_all_channels_def close_fold_silent)

lemma ping_eq: "on_inbound d (Ping i) s = subject_next (Pong d i) s"
  by (simp add: on_inbound_def)

lemma input_eq: "on_inbound d (Input v) s = s\<lparr>inputChannel := inputChannel s @ [v]\<rparr>"
  by (simp add: on_inbound_def)

lemma do_call_outcome [simp]: "outcome (do_call d c s) = outcome s"
  by (cases c) (auto simp: do_call_def createChannel_def split: sum.splits if_splits)

lemma do_call_execution [simp]: "execution (do_call d c s) = execution s"
  by (cases c) (auto simp: do_call_def createChannel_def split: sum.splits if_splits)










lemma channel_complete_chan_inv: "chan_inv s \<Longrightarrow> chan_inv (channel_complete d h s)"
  unfolding chan_inv_def
  by (auto simp: distinct_map_filter live_def nth_list_update)

lemma channel_error_chan_inv: "chan_inv s \<Longrightarrow> chan_inv (channel_error d h e s)"
  unfolding chan_inv_def
  by (auto simp: distinct_map_filter live_def nth_list_update)

lemma createChannel_chan_inv:
  "chan_inv s \<Longrightarrow> createChannel n s = Inr (h, s') \<Longrightarrow> chan_inv s'"
  unfolding chan_inv_def createChannel_def has_channel_def
  by (fastforce simp: nth_append map_of_eq_None_iff split: if_splits)

lemma do_call_chan_inv: "chan_inv s \<Longrightarrow> chan_inv (do_call d c s)"
proof (cases c)
  case (LoggerEntry e)
  assume "chan_inv s"
  then show ?thesis using LoggerEntry by (simp add: do_call_def chan_inv_def)
next
  case (CreateChannel n)
  assume "chan_inv s"
  then show ?thesis using CreateChannel createChannel_chan_inv[of s n]
    by (auto simp: do_call_def split: sum.splits)
next
  case (ChannelNext h m)
  assume "chan_inv s"
  then show ?thesis using ChannelNext by (simp add: do_call_def chan_inv_def)
next
  case (ChannelFail h e)
  assume "chan_inv s"
  then show ?thesis using ChannelFail by (simp add: do_call_def channel_error_chan_inv)
next
  case (ChannelDone h)
  assume "chan_inv s"
  then show ?thesis using ChannelDone by (simp add: do_call_def channel_complete_chan_inv)
qed

lemma close_fold_chan_inv:
  "chan_inv s \<Longrightarrow> chan_inv (fold (\<lambda>c. channel_complete d (snd c)) cs s)"
  by (induction cs arbitrary: s) (simp_all add: channel_complete_chan_inv)



lemma close_all_channels_chan_inv: "chan_inv s \<Longrightarrow> chan_inv (close_all_channels d s)"
  by (simp add: close_all_channels_def close_fold_chan_inv)

lemma chan_inv_frame:
  "chan_inv s \<Longrightarrow> channels s' = channels s \<Longrightarrow> subjects s' = subjects s \<Longrightarrow> chan_inv s'"
  by (simp add: chan_inv_def)

lemma on_inbound_chan_inv: "chan_inv s \<Longrightarrow> chan_inv (on_inbound d m s)"
proof (cases m)
  case (Ping i)
  assume "chan_inv s"
  then show ?thesis using Ping by (simp add: ping_eq chan_inv_def)
next
  case Stop
  assume "chan_inv s"
  then have "chan_inv (subject_complete (subject_next (End d) (unsubscribe s)))"
    by (rule chan_inv_frame) simp_all
  then show ?thesis using Stop by (simp add: on_inbound_def close_all_channels_chan_inv)
next
  case (Input v)
  assume "chan_inv s"
  then show ?thesis using Input by (simp add: input_eq chan_inv_def)
qed


lemma step_chan_inv: "chan_inv s \<Longrightarrow> chan_inv (step d ev s)"
  by (cases ev) (auto simp: step_def on_inbound_chan_inv do_call_chan_inv elim: chan_inv_frame)

lemma steps_chan_inv: "chan_inv s \<Longrightarrow> chan_inv (fold (step d) evs s)"
  by (induction evs arbitrary: s) (simp_all add: step_chan_inv)



lemma calls_chan_inv: "chan_inv s \<Longrightarrow> chan_inv (fold (do_call d) cs s)"
  by (induction cs arbitrary: s) (simp_all add: do_call_chan_inv)


lemma calls_outcome [simp]: "outcome (fold (do_call d) cs s) = outcome s"
  by (induction cs arbitrary: s) simp_all

lemma calls_execution [simp]: "execution (fold (do_call d) cs s) = execution s"
  by (induction cs arbitrary: s) simp_all


lemma finish_chan_inv: "chan_inv s \<Longrightarrow> chan_inv (finish d r s)"
  by (cases r) (auto simp: finish_def elim: chan_inv_frame)

lemma started_invs:
  "trace_inv d (subject_next (Start d) initial)" "chan_inv (subject_next (Start d) initial)"
  by (simp_all add: trace_inv_def chan_inv_def initial_def subject_next_def)


lemma subscribe_chan_inv: "chan_inv (subscribe d b)"
  by (simp add: subscribe_def finish_chan_inv calls_chan_inv started_invs)


lemma run_chan_inv: "chan_inv (run d b evs)"
  by (simp add: run_def steps_chan_inv subscribe_chan_inv)







lemma close_fold_length [simp]:
  "length (subjects (fold (\<lambda>c. channel_complete d (snd c)) cs s)) = length (subjects s)"
  by (induction cs arbitrary: s) simp_all




lemmas eval_defs = run_def subscribe_def finish_def do_call_def createChannel_def has_channel_def
  step_def on_inbound_def close_all_channels_def channel_complete_def channel_next_def
  channel_error_def live_def stop_subject_def delete_channel_def subject_next_def
  subject_complete_def subject_error_def unsubscribe_def initial_def count_kind_def

lemma createChannel_open:
  "has_channel name s \<Longrightarrow> createChannel name s = Inl (ChannelAlreadyExistException name)"
  by (simp add: createChannel_def)

lemma createChannel_fresh:
  "\<not> has_channel name s \<Longrightarrow>
   createChannel name s =
     Inr (length (subjects s),
          s\<lparr>subjects := subjects s @ [(name, False)],
            channels := channels s @ [(name, length (subjects s))]\<rparr>)"
  by (simp add: createChannel_def)

lemma name_filtered: "name \<notin> fst ` set (filter (\<lambda>c. fst c \<noteq> name) cs)"
  by auto








lemma outputs_simps [simp]:
  "outputs [] = []"
  "outputs (ms @ ns) = outputs ms @ outputs ns"
  "outputs (m # ms) = (if kind m = KOutput then m # outputs ms else outputs ms)"
  by (simp_all add: outputs_def)







lemma initial_fields [simp]:
  "emitted initial = []" "outcome initial = None" "channels initial = []"
  "subjects initial = []" "execution initial = Unset" "inputChannel initial = []"
  by (simp_all add: initial_def)
















lemma chan_inv_entry:
  "chan_inv s \<Longrightarrow> map_of (channels s) name = Some h \<Longrightarrow>
   h < length (subjects s) \<and> subjects s ! h = (name, False)"
  by (auto simp: chan_inv_def dest: map_of_SomeD)

section \<open>The claims\<close>

subsection \<open>C1: the shape of every run\<close>




subsection \<open>C2: a body that returns a scalar\<close>




subsection \<open>C3: a body that returns a promise\<close>




subsection \<open>C4: a body that returns a stream\<close>




subsection \<open>C5: \<open>Stop\<close> while a stream is in flight\<close>




subsection \<open>C6: \<open>Stop\<close> twice\<close>




subsection \<open>C7: the life of a channel\<close>

text \<open>
  Claim C7. In any state of a run, \<^verbatim>\<open>createChannel(name)\<close> with \<open>name\<close> in the channel
  table throws \<open>ChannelAlreadyExistException name\<close> to its caller and changes nothing, so
  no outbound message comes of it; with \<open>name\<close> not in the table it succeeds, emits
  nothing and puts the name with a new handle \<open>h\<close> into the table. When \<open>h\<close> is the
  handle of \<open>name\<close> in the table: pushing \<open>m1\<close> and \<open>m2\<close> through the handle and
  completing it emits, within the run (\<open>outcome s = None\<close>: the outbound stream has not
  ended), exactly \<open>ChannelMessage name m1\<close>, \<open>ChannelMessage name m2\<close>,
  \<open>ChannelComplete name\<close>, in that order, and nothing once the stream has ended; after
  that the name is not in the table and \<^verbatim>\<open>createChannel(name)\<close> succeeds. The channel
  table of every state of a run is well-formed (\<open>chan_inv\<close>).
\<close>

theorem channel_lifecycle:
  "(has_channel name s \<longrightarrow>
      createChannel name s = Inl (ChannelAlreadyExistException name) \<and>
      do_call d (CreateChannel name) s = s) \<and>
   (\<not> has_channel name s \<longrightarrow>
      (\<exists>h s1. createChannel name s = Inr (h, s1) \<and> do_call d (CreateChannel name) s = s1 \<and>
         emitted s1 = emitted s \<and> outcome s1 = outcome s \<and>
         map_of (channels s1) name = Some h \<and> (chan_inv s \<longrightarrow> chan_inv s1))) \<and>
   (chan_inv s \<and> map_of (channels s) name = Some h \<longrightarrow>
      emitted (channel_complete d h (channel_next d h m2 (channel_next d h m1 s))) =
        (if outcome s = None
         then emitted s @ [ChannelMessage d name m1, ChannelMessage d name m2, ChannelComplete d name]
         else emitted s) \<and>
      \<not> has_channel name (channel_complete d h (channel_next d h m2 (channel_next d h m1 s))) \<and>
      (\<exists>h' s2. createChannel name
          (channel_complete d h (channel_next d h m2 (channel_next d h m1 s))) = Inr (h', s2))) \<and>
   chan_inv (run d b evs)"
proof -
  have 1: "has_channel name s \<longrightarrow>
      createChannel name s = Inl (ChannelAlreadyExistException name) \<and>
      do_call d (CreateChannel name) s = s"
    by (simp add: do_call_def createChannel_open)
  have 2: "\<not> has_channel name s \<longrightarrow>
      (\<exists>h s1. createChannel name s = Inr (h, s1) \<and> do_call d (CreateChannel name) s = s1 \<and>
         emitted s1 = emitted s \<and> outcome s1 = outcome s \<and>
         map_of (channels s1) name = Some h \<and> (chan_inv s \<longrightarrow> chan_inv s1))"
  proof
    assume fresh: "\<not> has_channel name s"
    let ?h = "length (subjects s)"
    let ?s1 = "s\<lparr>subjects := subjects s @ [(name, False)], channels := channels s @ [(name, ?h)]\<rparr>"
    have cr: "createChannel name s = Inr (?h, ?s1)" using fresh by (rule createChannel_fresh)
    have dc: "do_call d (CreateChannel name) s = ?s1" using cr by (simp add: do_call_def)
    have mp: "map_of (channels ?s1) name = Some ?h"
      using fresh by (simp add: has_channel_def map_add_Some_iff)
    have ci: "chan_inv s \<longrightarrow> chan_inv ?s1" using cr createChannel_chan_inv by blast
    show "\<exists>h s1. createChannel name s = Inr (h, s1) \<and> do_call d (CreateChannel name) s = s1 \<and>
         emitted s1 = emitted s \<and> outcome s1 = outcome s \<and>
         map_of (channels s1) name = Some h \<and> (chan_inv s \<longrightarrow> chan_inv s1)"
      using cr dc mp ci by (intro exI[of _ ?h] exI[of _ ?s1]) simp
  qed
  have 3: "chan_inv s \<and> map_of (channels s) name = Some h \<longrightarrow>
      emitted (channel_complete d h (channel_next d h m2 (channel_next d h m1 s))) =
        (if outcome s = None
         then emitted s @ [ChannelMessage d name m1, ChannelMessage d name m2, ChannelComplete d name]
         else emitted s) \<and>
      \<not> has_channel name (channel_complete d h (channel_next d h m2 (channel_next d h m1 s))) \<and>
      (\<exists>h' s2. createChannel name
          (channel_complete d h (channel_next d h m2 (channel_next d h m1 s))) = Inr (h', s2))"
  proof (intro impI, elim conjE)
    assume ci: "chan_inv s" and mp: "map_of (channels s) name = Some h"
    let ?s4 = "channel_complete d h (channel_next d h m2 (channel_next d h m1 s))"
    have e: "h < length (subjects s)" "subjects s ! h = (name, False)"
      using chan_inv_entry[OF ci mp] by simp_all
    then have lv: "live h s" "fst (subjects s ! h) = name" by (simp_all add: live_def)
    have lv2: "live h (channel_next d h m1 s)" "live h (channel_next d h m2 (channel_next d h m1 s))"
      using lv by (simp_all add: live_def)
    have em: "emitted ?s4 =
        (if outcome s = None
         then emitted s @ [ChannelMessage d name m1, ChannelMessage d name m2, ChannelComplete d name]
         else emitted s)"
      using lv lv2 by simp
    have gone: "\<not> has_channel name ?s4"
      using lv lv2 by (simp add: has_channel_def map_of_eq_None_iff name_filtered del: set_filter)
    then have again: "\<exists>h' s2. createChannel name ?s4 = Inr (h', s2)"
      by (simp add: createChannel_def)
    from em gone again show "emitted ?s4 =
        (if outcome s = None
         then emitted s @ [ChannelMessage d name m1, ChannelMessage d name m2, ChannelComplete d name]
         else emitted s) \<and>
      \<not> has_channel name ?s4 \<and> (\<exists>h' s2. createChannel name ?s4 = Inr (h', s2))"
      by blast
  qed
  have 4: "chan_inv (run d b evs)" by (rule run_chan_inv)
  from 1 2 3 4 show ?thesis by blast
qed

theorem channel_lifecycle_witness:
  "has_channel ''c'' (run (JString ''j'') \<lparr>calls = [CreateChannel ''c''], returns = PromiseResult\<rparr> []) \<and>
   createChannel ''c'' (run (JString ''j'') \<lparr>calls = [CreateChannel ''c''], returns = PromiseResult\<rparr> []) =
     Inl (ChannelAlreadyExistException ''c'') \<and>
   chan_inv (run (JString ''j'') \<lparr>calls = [CreateChannel ''c''], returns = PromiseResult\<rparr> []) \<and>
   outcome (run (JString ''j'') \<lparr>calls = [CreateChannel ''c''], returns = PromiseResult\<rparr> []) = None \<and>
   map_of (channels (run (JString ''j'') \<lparr>calls = [CreateChannel ''c''], returns = PromiseResult\<rparr> [])) ''c'' =
     Some 0 \<and>
   emitted (run (JString ''j'') \<lparr>calls = [CreateChannel ''c''], returns = PromiseResult\<rparr>
      [Call (ChannelNext 0 (JNumber 1)), Call (ChannelNext 0 (JNumber 2)), Call (ChannelDone 0)]) =
     [Start (JString ''j''), ChannelMessage (JString ''j'') ''c'' (JNumber 1),
      ChannelMessage (JString ''j'') ''c'' (JNumber 2), ChannelComplete (JString ''j'') ''c''] \<and>
   \<not> has_channel ''c'' (run (JString ''j'') \<lparr>calls = [CreateChannel ''c''], returns = PromiseResult\<rparr>
      [Call (ChannelNext 0 (JNumber 1)), Call (ChannelNext 0 (JNumber 2)), Call (ChannelDone 0)]) \<and>
   has_channel ''c'' (run (JString ''j'') \<lparr>calls = [CreateChannel ''c''], returns = PromiseResult\<rparr>
      [Call (ChannelNext 0 (JNumber 1)), Call (ChannelNext 0 (JNumber 2)), Call (ChannelDone 0),
       Call (CreateChannel ''c'')])"
  using channel_lifecycle [of "''c''"
      "run (JString ''j'') \<lparr>calls = [CreateChannel ''c''], returns = PromiseResult\<rparr> []"
      "JString ''j''" 0 "JNumber 2" "JNumber 1"
      "\<lparr>calls = [CreateChannel ''c''], returns = PromiseResult\<rparr>" "[]"]
  by (simp add: eval_defs)

subsection \<open>C8: Ping and Pong\<close>



text \<open>
  The \<open>Stop\<close> branch emits \<open>End\<close> and completes the stream at once (lines 88 and 89):
  no state of the model lies after a \<open>Stop\<close> and before the end of the stream, and a
  \<open>Ping\<close> that follows a \<open>Stop\<close> is a \<open>Ping\<close> after \<open>End\<close>. Here the promise of the body
  has not settled when \<open>Stop\<close> and then \<open>Ping 7\<close> are delivered.
\<close>

lemma ping_after_stop:
  "execution (run (JString ''job'') \<lparr>calls = [], returns = PromiseResult\<rparr> [Inbound Stop]) = PromisePending \<and>
   outcome (run (JString ''job'') \<lparr>calls = [], returns = PromiseResult\<rparr> [Inbound Stop]) = Some Completed \<and>
   emitted (run (JString ''job'') \<lparr>calls = [], returns = PromiseResult\<rparr> [Inbound Stop, Inbound (Ping 7)]) =
     [Start (JString ''job''), End (JString ''job'')]"
  by (simp add: eval_defs)

subsection \<open>C9: the logging wrapper\<close>


subsection \<open>C10: the property \<open>jobDescription\<close>\<close>

text \<open>
  Claim C10. The handler returned by \<^verbatim>\<open>createJobHandler\<close> has the own property
  \<open>jobDescription\<close> equal to the options it was given, the empty object when the options
  are omitted; so has the handler returned by \<^verbatim>\<open>createJobFactory\<close>. The handler
  returned by \<^verbatim>\<open>createLoggerJob\<close> has the own enumerable properties of the wrapped
  handler, so it shows the wrapped handler's \<open>jobDescription\<close>.
\<close>

theorem jobDescription_property:
  "props (createJobHandler fn (Some options)) ''jobDescription'' = Some options \<and>
   props (createJobHandler fn None) ''jobDescription'' = Some (JObject []) \<and>
   props (createJobFactory loader options) ''jobDescription'' = Some options \<and>
   props (createLoggerJob job) = props job \<and>
   props (createLoggerJob (createJobHandler fn (Some options))) ''jobDescription'' = Some options"
  by (simp add: createJobHandler_def createJobFactory_def createLoggerJob_def object_assign_def)

end
